theory Spec2Isabelle
  imports Main "HOL-Library.Sublist"
begin

section \<open>The tutorial workflow \<^verbatim>\<open>working_with_strax.py\<close>\<close>

text \<open>
  The source file is the export of a notebook: a straight-line module of nineteen
  statements, every one of which is a call into an external collaborator (the IPython
  shell, the import system, straxen's context, pandas' plotting accessor, pyplot, the
  builtin \<^verbatim>\<open>print\<close>) or the binding of a literal. The module defines no function, no
  class, no loop, no branch and no \<^verbatim>\<open>try\<close>.

  The embedding keeps what the module itself does: the order of the statements, the
  arguments each call receives, the module-level variables it binds and reads, and
  the way Python propagates an exception out of a module that has no handler. What
  a collaborator answers is not part of the repository; it is a parameter \<open>ext\<close> of
  every definition, a function from the call and the state of the outside world to
  a result (or a raised exception) and the next state of the outside world.
\<close>

subsection \<open>Values, exceptions and external calls\<close>

text \<open>
  Python values as far as the module handles them: \<^verbatim>\<open>None\<close>, the integer and string
  literals it writes, and references to objects owned by a collaborator (modules, the
  context, the dataframe), which the module only passes around.
\<close>

datatype pyval = PNone | PInt int | PStr string | PObj nat

text \<open>
  Exceptions: \<^verbatim>\<open>NameError\<close> is what the interpreter raises on reading an unbound
  name; everything else is raised inside a collaborator.
\<close>

datatype error = NameError string | Raised string

text \<open>
  One constructor for each call expression of the module. A receiver or an argument
  that the source reads from a variable is a \<open>pyval\<close>; an argument that the source
  writes as a literal is carried as the literal's value.
  \<^item> \<open>System cmd\<close>: \<^verbatim>\<open>get_ipython().system(cmd)\<close> (lines 43, 44)
  \<^item> \<open>Import m\<close>: \<^verbatim>\<open>import m\<close> (lines 54 to 56, 136)
  \<^item> \<open>Xenon1tDali straxen\<close>: \<^verbatim>\<open>straxen.contexts.xenon1t_dali()\<close> (line 64)
  \<^item> \<open>SearchField st s\<close>: \<^verbatim>\<open>st.search_field(s)\<close> (line 80)
  \<^item> \<open>DataInfo st d\<close>: \<^verbatim>\<open>st.data_info(d)\<close> (lines 88, 94)
  \<^item> \<open>SelectRuns st\<close>: \<^verbatim>\<open>st.select_runs()\<close> (line 102)
  \<^item> \<open>GetDf st run_id d\<close>: \<^verbatim>\<open>st.get_df(run_id, d)\<close> (line 118)
  \<^item> \<open>Print v\<close>: \<^verbatim>\<open>print(v)\<close> (line 126)
  \<^item> \<open>PlotScatter df x y\<close>: \<^verbatim>\<open>df.plot.scatter(x, y)\<close> (line 138)
  \<^item> \<open>XScale plt s\<close>, \<open>YScale plt s\<close>: \<^verbatim>\<open>plt.xscale(s)\<close>, \<^verbatim>\<open>plt.yscale(s)\<close> (lines 139, 141)
  \<^item> \<open>XLim plt lo hi\<close>: \<^verbatim>\<open>plt.xlim(lo, hi)\<close> (line 140)
  \<^item> \<open>EventScatter st run_id\<close>: \<^verbatim>\<open>st.event_scatter(run_id)\<close> (line 149)
\<close>

datatype call =
    System string
  | Import string
  | Xenon1tDali pyval
  | SearchField pyval pyval
  | DataInfo pyval pyval
  | SelectRuns pyval
  | GetDf pyval pyval pyval
  | Print pyval
  | PlotScatter pyval pyval pyval
  | XScale pyval pyval
  | XLim pyval pyval pyval
  | YScale pyval pyval
  | EventScatter pyval pyval

text \<open>
  What the module does is observable as a sequence of events: a call together with
  what the collaborator answered, or the binding of a module-level variable.
\<close>

datatype event = Called call "error + pyval" | Bound string pyval

type_synonym 'w ext = "call \<Rightarrow> 'w \<Rightarrow> (error + pyval) \<times> 'w"

record 'w state =
  world :: 'w
  vars :: "string \<rightharpoonup> pyval"
  log :: "event list"

type_synonym ('w, 'a) prog = "'w state \<Rightarrow> (error + 'a) \<times> 'w state"

subsection \<open>Statements\<close>

definition ret :: "'a \<Rightarrow> ('w, 'a) prog" where
  "ret x = (\<lambda>s. (Inr x, s))"

text \<open>Sequencing: an exception of the first part skips the rest.\<close>

definition then_with :: "('w, 'a) prog \<Rightarrow> ('a \<Rightarrow> ('w, 'b) prog) \<Rightarrow> ('w, 'b) prog" where
  "then_with m f = (\<lambda>s. case m s of
      (Inl e, s') \<Rightarrow> (Inl e, s')
    | (Inr x, s') \<Rightarrow> f x s')"

text \<open>Reading a name: the bound value, or \<^verbatim>\<open>NameError\<close>.\<close>

definition name :: "string \<Rightarrow> ('w, pyval) prog" where
  "name x = (\<lambda>s. case vars s x of
      None \<Rightarrow> (Inl (NameError x), s)
    | Some v \<Rightarrow> (Inr v, s))"

text \<open>An external call: the collaborator answers, the world moves on, the event is logged.\<close>

definition call :: "'w ext \<Rightarrow> call \<Rightarrow> ('w, pyval) prog" where
  "call ext c = (\<lambda>s. case ext c (world s) of
      (r, w') \<Rightarrow> (r, s\<lparr>world := w', log := log s @ [Called c r]\<rparr>))"

text \<open>\<^verbatim>\<open>x = e\<close>: evaluate, then bind.\<close>

definition assign :: "string \<Rightarrow> ('w, pyval) prog \<Rightarrow> ('w, unit) prog" where
  "assign x m = then_with m (\<lambda>v s.
      (Inr (), s\<lparr>vars := (vars s)(x \<mapsto> v), log := log s @ [Bound x v]\<rparr>))"

text \<open>An expression statement: evaluate, drop the value.\<close>

definition expr :: "('w, pyval) prog \<Rightarrow> ('w, unit) prog" where
  "expr m = then_with m (\<lambda>_. ret ())"

text \<open>\<^verbatim>\<open>import m as x\<close> (and \<^verbatim>\<open>import m\<close>, which is \<^verbatim>\<open>import m as m\<close>).\<close>

definition import_as :: "'w ext \<Rightarrow> string \<Rightarrow> string \<Rightarrow> ('w, unit) prog" where
  "import_as ext m x = assign x (call ext (Import m))"

text \<open>A block of statements, top to bottom.\<close>

fun block :: "('w, unit) prog list \<Rightarrow> ('w, unit) prog" where
  "block [] = ret ()"
| "block (m # ms) = then_with m (\<lambda>_. block ms)"

subsection \<open>The module, cell by cell\<close>

definition pip_cmd :: string where
  "pip_cmd = ''pip install -I strax==0.12.2 straxen==0.11.0 -q''"

text \<open>Lines 43 and 44.\<close>

definition install :: "'w ext \<Rightarrow> ('w, unit) prog list" where
  "install ext =
    [expr (call ext (System pip_cmd)),
     expr (call ext (System (pip_cmd @ '' --user'')))]"

text \<open>Lines 54 to 56.\<close>

definition import_modules :: "'w ext \<Rightarrow> ('w, unit) prog list" where
  "import_modules ext =
    [import_as ext ''straxen'' ''straxen'',
     import_as ext ''strax'' ''strax'',
     import_as ext ''pandas'' ''pd'']"

text \<open>Line 64: \<^verbatim>\<open>st = straxen.contexts.xenon1t_dali()\<close>.\<close>

definition select_context :: "'w ext \<Rightarrow> ('w, unit) prog list" where
  "select_context ext =
    [assign ''st'' (then_with (name ''straxen'') (\<lambda>m. call ext (Xenon1tDali m)))]"

text \<open>Lines 80, 88, 94 and 102.\<close>

definition discovery :: "'w ext \<Rightarrow> ('w, unit) prog list" where
  "discovery ext =
    [expr (then_with (name ''st'') (\<lambda>st. call ext (SearchField st (PStr ''cs1'')))),
     expr (then_with (name ''st'') (\<lambda>st. call ext (DataInfo st (PStr ''corrected_areas'')))),
     expr (then_with (name ''st'') (\<lambda>st. call ext (DataInfo st (PStr ''event_info'')))),
     expr (then_with (name ''st'') (\<lambda>st. call ext (SelectRuns st)))]"

text \<open>Lines 110, 118 and 126.\<close>

definition retrieval :: "'w ext \<Rightarrow> ('w, unit) prog list" where
  "retrieval ext =
    [assign ''run_id'' (ret (PStr ''180215_1029'')),
     assign ''df'' (then_with (name ''st'') (\<lambda>st. then_with (name ''run_id'') (\<lambda>r.
        call ext (GetDf st r (PStr ''event_info''))))),
     expr (then_with (name ''df'') (\<lambda>df. call ext (Print df)))]"

text \<open>Lines 136 to 141.\<close>

definition manual_plot :: "'w ext \<Rightarrow> ('w, unit) prog list" where
  "manual_plot ext =
    [import_as ext ''matplotlib.pyplot'' ''plt'',
     expr (then_with (name ''df'') (\<lambda>df. call ext (PlotScatter df (PStr ''cs1'') (PStr ''cs2'')))),
     expr (then_with (name ''plt'') (\<lambda>plt. call ext (XScale plt (PStr ''log'')))),
     expr (then_with (name ''plt'') (\<lambda>plt. call ext (XLim plt (PInt 1) PNone))),
     expr (then_with (name ''plt'') (\<lambda>plt. call ext (YScale plt (PStr ''log''))))]"

text \<open>Line 149.\<close>

definition builtin_plot :: "'w ext \<Rightarrow> ('w, unit) prog list" where
  "builtin_plot ext =
    [expr (then_with (name ''st'') (\<lambda>st. then_with (name ''run_id'') (\<lambda>r.
        call ext (EventScatter st r))))]"

definition workflow :: "'w ext \<Rightarrow> ('w, unit) prog" where
  "workflow ext = block (install ext @ import_modules ext @ select_context ext @ discovery ext
      @ retrieval ext @ manual_plot ext @ builtin_plot ext)"

text \<open>A fresh session: nothing bound, nothing logged.\<close>

definition fresh :: "'w \<Rightarrow> 'w state" where
  "fresh w = \<lparr>world = w, vars = Map.empty, log = []\<rparr>"

subsection \<open>Reading the log\<close>

text \<open>The calls of a log, in the order they were made.\<close>

fun calls :: "event list \<Rightarrow> call list" where
  "calls [] = []"
| "calls (Called c r # evs) = c # calls evs"
| "calls (Bound x v # evs) = calls evs"

text \<open>An event is a failure when it is a call that raised.\<close>

fun failed :: "event \<Rightarrow> bool" where
  "failed (Called c (Inl e)) = True"
| "failed (Called c (Inr v)) = False"
| "failed (Bound x v) = False"

text \<open>
  \<open>replay ext w evs\<close> asks the collaborators the calls of \<open>evs\<close> again, from the world
  \<open>w\<close>: it is the world they end in when every call gets the answer the log records,
  and \<open>None\<close> when some answer differs.
\<close>

fun replay :: "'w ext \<Rightarrow> 'w \<Rightarrow> event list \<Rightarrow> 'w option" where
  "replay ext w [] = Some w"
| "replay ext w (Bound x v # evs) = replay ext w evs"
| "replay ext w (Called c r # evs) =
     (if fst (ext c w) = r then replay ext (snd (ext c w)) evs else None)"

text \<open>The values a call receives: its receiver and its arguments.\<close>

fun args_of :: "call \<Rightarrow> pyval list" where
  "args_of (System cmd) = [PStr cmd]"
| "args_of (Import m) = [PStr m]"
| "args_of (Xenon1tDali m) = [m]"
| "args_of (SearchField st f) = [st, f]"
| "args_of (DataInfo st d) = [st, d]"
| "args_of (SelectRuns st) = [st]"
| "args_of (GetDf st r d) = [st, r, d]"
| "args_of (Print v) = [v]"
| "args_of (PlotScatter df x y) = [df, x, y]"
| "args_of (XScale plt s) = [plt, s]"
| "args_of (XLim plt lo hi) = [plt, lo, hi]"
| "args_of (YScale plt s) = [plt, s]"
| "args_of (EventScatter st r) = [st, r]"

text \<open>The calls of a log that receive the value \<open>v\<close>.\<close>

definition consumers :: "pyval \<Rightarrow> event list \<Rightarrow> call list" where
  "consumers v evs = filter (\<lambda>c. v \<in> set (args_of c)) (calls evs)"

text \<open>
  The three steps of the workflow. Installing and importing packages is housekeeping
  and belongs to none of them.
\<close>

datatype step = ContextSelection | Discovery | RetrievalVisualization

fun step_of :: "call \<Rightarrow> step option" where
  "step_of (System cmd) = None"
| "step_of (Import m) = None"
| "step_of (Xenon1tDali m) = Some ContextSelection"
| "step_of (SearchField st f) = Some Discovery"
| "step_of (DataInfo st d) = Some Discovery"
| "step_of (SelectRuns st) = Some Discovery"
| "step_of (GetDf st r d) = Some RetrievalVisualization"
| "step_of (Print v) = Some RetrievalVisualization"
| "step_of (PlotScatter df x y) = Some RetrievalVisualization"
| "step_of (XScale plt s) = Some RetrievalVisualization"
| "step_of (XLim plt lo hi) = Some RetrievalVisualization"
| "step_of (YScale plt s) = Some RetrievalVisualization"
| "step_of (EventScatter st r) = Some RetrievalVisualization"

fun steps :: "call list \<Rightarrow> step list" where
  "steps [] = []"
| "steps (c # cs) = (case step_of c of None \<Rightarrow> steps cs | Some p \<Rightarrow> p # steps cs)"

text \<open>
  \<open>results_feed_forward evs\<close>: every call of the context-selection step or of the
  discovery step that returned hands what it returned to a call made after it.
\<close>

fun results_feed_forward :: "event list \<Rightarrow> bool" where
  "results_feed_forward [] = True"
| "results_feed_forward (Called c (Inr v) # evs) =
     ((if step_of c = Some ContextSelection \<or> step_of c = Some Discovery
       then consumers v evs \<noteq> [] else True)
      \<and> results_feed_forward evs)"
| "results_feed_forward (Called c (Inl e) # evs) = results_feed_forward evs"
| "results_feed_forward (Bound x v # evs) = results_feed_forward evs"

text \<open>
  Where the run identifier shows in an event: in a binding of the variable
  \<^verbatim>\<open>run_id\<close>, and as the argument of \<^verbatim>\<open>get_df\<close> and of \<^verbatim>\<open>event_scatter\<close>.
\<close>

datatype run_id_use = BindsRunId pyval | GetDfOn pyval | EventScatterOn pyval

fun run_id_use_of :: "event \<Rightarrow> run_id_use option" where
  "run_id_use_of (Bound x v) = (if x = ''run_id'' then Some (BindsRunId v) else None)"
| "run_id_use_of (Called (GetDf st r d) res) = Some (GetDfOn r)"
| "run_id_use_of (Called (EventScatter st r) res) = Some (EventScatterOn r)"
| "run_id_use_of (Called c res) = None"

fun run_id_uses :: "event list \<Rightarrow> run_id_use list" where
  "run_id_uses [] = []"
| "run_id_uses (ev # evs) =
     (case run_id_use_of ev of None \<Rightarrow> run_id_uses evs | Some u \<Rightarrow> u # run_id_uses evs)"

text \<open>
  Where the plotted data comes from: the table a successful \<^verbatim>\<open>get_df\<close> returned, with
  the context and the run identifier it was asked on; a binding of the variable \<^verbatim>\<open>df\<close>;
  the receiver of the scatter plot; the context and the run identifier of
  \<^verbatim>\<open>event_scatter\<close>.
\<close>

datatype plot_source =
    Retrieved pyval pyval pyval
  | BindsDf pyval
  | ManualPlotOf pyval
  | BuiltinPlotOf pyval pyval

fun plot_source_of :: "event \<Rightarrow> plot_source option" where
  "plot_source_of (Bound x v) = (if x = ''df'' then Some (BindsDf v) else None)"
| "plot_source_of (Called (GetDf st r d) (Inr t)) = Some (Retrieved st r t)"
| "plot_source_of (Called (PlotScatter df x y) res) = Some (ManualPlotOf df)"
| "plot_source_of (Called (EventScatter st r) res) = Some (BuiltinPlotOf st r)"
| "plot_source_of (Called c res) = None"

fun plot_sources :: "event list \<Rightarrow> plot_source list" where
  "plot_sources [] = []"
| "plot_sources (ev # evs) =
     (case plot_source_of ev of None \<Rightarrow> plot_sources evs | Some u \<Rightarrow> u # plot_sources evs)"

text \<open>
  The log of a session in which every call returns, as a function of the eighteen
  values returned: the two installations, the three imports, the context, the four
  discovery calls, the table, \<^verbatim>\<open>print\<close>, the import of pyplot, the four plotting calls
  and \<^verbatim>\<open>event_scatter\<close>.
\<close>

definition complete_log ::
  "pyval \<Rightarrow> pyval \<Rightarrow> pyval \<Rightarrow> pyval \<Rightarrow> pyval \<Rightarrow> pyval \<Rightarrow> pyval \<Rightarrow> pyval \<Rightarrow> pyval \<Rightarrow> pyval
   \<Rightarrow> pyval \<Rightarrow> pyval \<Rightarrow> pyval \<Rightarrow> pyval \<Rightarrow> pyval \<Rightarrow> pyval \<Rightarrow> pyval \<Rightarrow> pyval \<Rightarrow> event list" where
  "complete_log i1 i2 m m2 m3 st d1 d2 d3 d4 df p plt f1 f2 f3 f4 f5 =
     [Called (System pip_cmd) (Inr i1),
      Called (System (pip_cmd @ '' --user'')) (Inr i2),
      Called (Import ''straxen'') (Inr m), Bound ''straxen'' m,
      Called (Import ''strax'') (Inr m2), Bound ''strax'' m2,
      Called (Import ''pandas'') (Inr m3), Bound ''pd'' m3,
      Called (Xenon1tDali m) (Inr st), Bound ''st'' st,
      Called (SearchField st (PStr ''cs1'')) (Inr d1),
      Called (DataInfo st (PStr ''corrected_areas'')) (Inr d2),
      Called (DataInfo st (PStr ''event_info'')) (Inr d3),
      Called (SelectRuns st) (Inr d4),
      Bound ''run_id'' (PStr ''180215_1029''),
      Called (GetDf st (PStr ''180215_1029'') (PStr ''event_info'')) (Inr df),
      Bound ''df'' df,
      Called (Print df) (Inr p),
      Called (Import ''matplotlib.pyplot'') (Inr plt), Bound ''plt'' plt,
      Called (PlotScatter df (PStr ''cs1'') (PStr ''cs2'')) (Inr f1),
      Called (XScale plt (PStr ''log'')) (Inr f2),
      Called (XLim plt (PInt 1) PNone) (Inr f3),
      Called (YScale plt (PStr ''log'')) (Inr f4),
      Called (EventScatter st (PStr ''180215_1029'')) (Inr f5)]"

text \<open>
  \<open>raised_at x ev e\<close>: \<open>x\<close> is the call of \<open>ev\<close>, raising \<open>e\<close> where \<open>ev\<close> returns.
  \<open>stops_in lg full e\<close>: the log \<open>lg\<close> is the log \<open>full\<close> up to one of its calls, with
  that call raising \<open>e\<close> as the last event of \<open>lg\<close>.
\<close>

fun raised_at :: "event \<Rightarrow> event \<Rightarrow> error \<Rightarrow> bool" where
  "raised_at (Called c' (Inl e')) (Called c (Inr v)) e = (c' = c \<and> e' = e)"
| "raised_at x ev e = False"

fun stops_in :: "event list \<Rightarrow> event list \<Rightarrow> error \<Rightarrow> bool" where
  "stops_in [] full e = False"
| "stops_in (x # lg) [] e = False"
| "stops_in [x] (ev # full) e = raised_at x ev e"
| "stops_in (x # y # lg) (ev # full) e = (x = ev \<and> stops_in (y # lg) full e)"

subsection \<open>What the plotting calls ask for\<close>

text \<open>
  The figure itself is drawn by pandas and pyplot, outside the repository. The model
  records what the module asks of them, after pyplot's interface: there is always a
  current axes; a scatter plot starts a new one with linear scales and automatic
  limits; \<^verbatim>\<open>xscale\<close> and \<^verbatim>\<open>yscale\<close> set the scale of an axis of the current axes from a
  scale name; \<^verbatim>\<open>xlim(lo, hi)\<close> sets each limit of the x-axis that is given and leaves
  a limit that is \<^verbatim>\<open>None\<close> as it was. A limit of \<open>None\<close> in the record is a limit nobody
  set.
\<close>

datatype scale = Linear | Log | Symlog | Logit

fun scale_of :: "pyval \<Rightarrow> scale option" where
  "scale_of (PStr s) =
     (if s = ''linear'' then Some Linear
      else if s = ''log'' then Some Log
      else if s = ''symlog'' then Some Symlog
      else if s = ''logit'' then Some Logit
      else None)"
| "scale_of v = None"

record axes =
  plotted :: "(pyval \<times> pyval \<times> pyval) option"
  x_scale :: scale
  y_scale :: scale
  x_lower :: "int option"
  x_upper :: "int option"

definition blank :: axes where
  "blank = \<lparr>plotted = None, x_scale = Linear, y_scale = Linear, x_lower = None, x_upper = None\<rparr>"

fun limit :: "pyval \<Rightarrow> int option \<Rightarrow> int option" where
  "limit (PInt n) old = Some n"
| "limit v old = old"

fun draw :: "axes \<Rightarrow> call \<Rightarrow> axes" where
  "draw a (PlotScatter df x y) = blank\<lparr>plotted := Some (df, x, y)\<rparr>"
| "draw a (XScale plt s) = (case scale_of s of None \<Rightarrow> a | Some sc \<Rightarrow> a\<lparr>x_scale := sc\<rparr>)"
| "draw a (YScale plt s) = (case scale_of s of None \<Rightarrow> a | Some sc \<Rightarrow> a\<lparr>y_scale := sc\<rparr>)"
| "draw a (XLim plt lo hi) = a\<lparr>x_lower := limit lo (x_lower a), x_upper := limit hi (x_upper a)\<rparr>"
| "draw a c = a"

definition render :: "call list \<Rightarrow> axes" where
  "render cs = foldl draw blank cs"

subsection \<open>Two outside worlds to run the module in\<close>

text \<open>
  In \<open>cooperative\<close> every call succeeds and returns a fresh object: the world is the
  number of calls answered so far, and call number \<open>n\<close> returns object \<open>n\<close>. In
  \<open>unknown_run\<close> the same happens, except that \<^verbatim>\<open>get_df\<close> raises.
\<close>

definition cooperative :: "nat ext" where
  "cooperative c n = (Inr (PObj n), Suc n)"

definition unknown_run :: "nat ext" where
  "unknown_run c n =
     (case c of
        GetDf st r d \<Rightarrow> (Inl (Raised ''run not found''), Suc n)
      | _ \<Rightarrow> (Inr (PObj n), Suc n))"

text \<open>A session in which the result table is already bound to \<^verbatim>\<open>df\<close>.\<close>

definition table_loaded :: "nat state" where
  "table_loaded = \<lparr>world = 0, vars = [''df'' \<mapsto> PObj 10], log = []\<rparr>"

subsection \<open>Weakest preconditions\<close>

text \<open>
  \<open>wp m Q s\<close>: running \<open>m\<close> from \<open>s\<close> ends with a result and a state that satisfy \<open>Q\<close>.
  The module is straight-line code, so the rules below compute the condition on the
  collaborators' answers under which \<open>Q\<close> holds at the end.
\<close>

definition wp :: "('w, 'a) prog \<Rightarrow> ((error + 'a) \<Rightarrow> 'w state \<Rightarrow> bool) \<Rightarrow> 'w state \<Rightarrow> bool" where
  "wp m Q s = (case m s of (r, s') \<Rightarrow> Q r s')"

section \<open>Properties\<close>

subsection \<open>Rules of the calculus\<close>

lemma wp_ret: "wp (ret x) Q s = Q (Inr x) s"
  by (simp add: wp_def ret_def)

lemma wp_then_with:
  "wp (then_with m f) Q s =
     wp m (\<lambda>r s1. (\<forall>e. r = Inl e \<longrightarrow> Q (Inl e) s1) \<and> (\<forall>x. r = Inr x \<longrightarrow> wp (f x) Q s1)) s"
  by (auto simp: wp_def then_with_def split: prod.splits sum.splits)

lemma wp_name:
  "wp (name x) Q s =
     ((vars s x = None \<longrightarrow> Q (Inl (NameError x)) s) \<and> (\<forall>v. vars s x = Some v \<longrightarrow> Q (Inr v) s))"
  by (auto simp: wp_def name_def split: option.splits)

lemma wp_call:
  "wp (call ext c) Q s =
     ((\<forall>e w'. ext c (world s) = (Inl e, w') \<longrightarrow>
          Q (Inl e) (s\<lparr>world := w', log := log s @ [Called c (Inl e)]\<rparr>)) \<and>
      (\<forall>v w'. ext c (world s) = (Inr v, w') \<longrightarrow>
          Q (Inr v) (s\<lparr>world := w', log := log s @ [Called c (Inr v)]\<rparr>)))"
proof (cases "ext c (world s)")
  case (Pair r w')
  then show ?thesis
    by (cases r) (simp_all add: wp_def call_def)
qed

lemma wp_assign:
  "wp (assign x m) Q s =
     wp m (\<lambda>r s1. (\<forall>e. r = Inl e \<longrightarrow> Q (Inl e) s1) \<and>
        (\<forall>v. r = Inr v \<longrightarrow>
           Q (Inr ()) (s1\<lparr>vars := (vars s1)(x \<mapsto> v), log := log s1 @ [Bound x v]\<rparr>))) s"
  by (simp add: assign_def wp_then_with) (simp add: wp_def)

lemma wp_expr:
  "wp (expr m) Q s =
     wp m (\<lambda>r s1. (\<forall>e. r = Inl e \<longrightarrow> Q (Inl e) s1) \<and> (\<forall>v. r = Inr v \<longrightarrow> Q (Inr ()) s1)) s"
  by (simp add: expr_def wp_then_with wp_ret)

lemma wp_block_Nil: "wp (block []) Q s = Q (Inr ()) s"
  by (simp add: wp_ret)

lemma wp_block_Cons:
  "wp (block (m # ms)) Q s =
     wp m (\<lambda>r s1. (\<forall>e. r = Inl e \<longrightarrow> Q (Inl e) s1) \<and> (r = Inr () \<longrightarrow> wp (block ms) Q s1)) s"
  by (simp add: wp_then_with)

lemmas wp_rules =
  wp_ret wp_then_with wp_name wp_call wp_assign wp_expr wp_block_Nil wp_block_Cons

lemmas cells =
  install_def import_modules_def select_context_def discovery_def retrieval_def
  manual_plot_def builtin_plot_def import_as_def

lemma wpD: "wp m Q s \<Longrightarrow> m s = (r, s') \<Longrightarrow> Q r s'"
  by (simp add: wp_def)

subsection \<open>Failures propagate\<close>

lemma failures_wp:
  "wp (workflow ext) (\<lambda>r s'.
       replay ext w (log s') = Some (world s')
     \<and> \<not> list_ex failed (butlast (log s'))
     \<and> (\<forall>e. r = Inl e \<longrightarrow> log s' \<noteq> [] \<and> (\<exists>c. last (log s') = Called c (Inl e)))
     \<and> (r = Inr () \<longrightarrow> \<not> list_ex failed (log s'))) (fresh w)"
  by (simp add: workflow_def fresh_def cells wp_rules del: block.simps)

text \<open>
  Claim C2. The workflow has no error handling. Whatever the collaborators answer:
  the log is exactly what they answered, each call made once and in turn
  (\<open>replay\<close>); no call before the last event of the session raised; when the session
  ends with an exception \<open>e\<close>, its last event is the call that raised \<open>e\<close>, so \<open>e\<close>
  reaches the caller as it was raised and nothing runs after it; and a session that
  ends normally has seen no call raise. Hence no failure is caught, retried or
  replaced by another.
\<close>

theorem workflow_propagates_failures:
  assumes "workflow ext (fresh w) = (r, s')"
  shows "replay ext w (log s') = Some (world s')
     \<and> \<not> list_ex failed (butlast (log s'))
     \<and> (\<forall>e. r = Inl e \<longrightarrow> log s' \<noteq> [] \<and> (\<exists>c. last (log s') = Called c (Inl e)))
     \<and> (r = Inr () \<longrightarrow> \<not> list_ex failed (log s'))"
  using wpD [OF failures_wp assms] .

lemma unknown_run_session:
  "wp (workflow unknown_run) (\<lambda>r s'. r = Inl (Raised ''run not found'')
      \<and> world s' = 11
      \<and> calls (log s') = [System pip_cmd, System (pip_cmd @ '' --user''), Import ''straxen'',
           Import ''strax'', Import ''pandas'', Xenon1tDali (PObj 2),
           SearchField (PObj 5) (PStr ''cs1''), DataInfo (PObj 5) (PStr ''corrected_areas''),
           DataInfo (PObj 5) (PStr ''event_info''), SelectRuns (PObj 5),
           GetDf (PObj 5) (PStr ''180215_1029'') (PStr ''event_info'')]) (fresh 0)"
  by (simp add: workflow_def fresh_def cells wp_rules unknown_run_def del: block.simps)

text \<open>
  In the world where \<^verbatim>\<open>get_df\<close> raises, the session ends with that exception at the
  eleventh call, which is its last event.
\<close>

theorem workflow_propagates_failures_witness:
  "fst (workflow unknown_run (fresh 0)) = Inl (Raised ''run not found'')
   \<and> length (calls (log (snd (workflow unknown_run (fresh 0))))) = 11
   \<and> (\<exists>c. last (log (snd (workflow unknown_run (fresh 0)))) =
          Called c (Inl (Raised ''run not found'')))
   \<and> replay unknown_run 0 (log (snd (workflow unknown_run (fresh 0)))) = Some 11"
proof -
  have run: "workflow unknown_run (fresh 0) =
      (fst (workflow unknown_run (fresh 0)), snd (workflow unknown_run (fresh 0)))"
    by simp
  from wpD [OF unknown_run_session run] workflow_propagates_failures [OF run]
  show ?thesis by simp
qed

subsection \<open>The session in the cooperative world\<close>

lemma cooperative_session:
  "wp (workflow cooperative) (\<lambda>r s'. r = Inr () \<and> world s' = 18 \<and> log s' =
     [Called (System pip_cmd) (Inr (PObj 0)),
      Called (System (pip_cmd @ '' --user'')) (Inr (PObj 1)),
      Called (Import ''straxen'') (Inr (PObj 2)), Bound ''straxen'' (PObj 2),
      Called (Import ''strax'') (Inr (PObj 3)), Bound ''strax'' (PObj 3),
      Called (Import ''pandas'') (Inr (PObj 4)), Bound ''pd'' (PObj 4),
      Called (Xenon1tDali (PObj 2)) (Inr (PObj 5)), Bound ''st'' (PObj 5),
      Called (SearchField (PObj 5) (PStr ''cs1'')) (Inr (PObj 6)),
      Called (DataInfo (PObj 5) (PStr ''corrected_areas'')) (Inr (PObj 7)),
      Called (DataInfo (PObj 5) (PStr ''event_info'')) (Inr (PObj 8)),
      Called (SelectRuns (PObj 5)) (Inr (PObj 9)),
      Bound ''run_id'' (PStr ''180215_1029''),
      Called (GetDf (PObj 5) (PStr ''180215_1029'') (PStr ''event_info'')) (Inr (PObj 10)),
      Bound ''df'' (PObj 10),
      Called (Print (PObj 10)) (Inr (PObj 11)),
      Called (Import ''matplotlib.pyplot'') (Inr (PObj 12)), Bound ''plt'' (PObj 12),
      Called (PlotScatter (PObj 10) (PStr ''cs1'') (PStr ''cs2'')) (Inr (PObj 13)),
      Called (XScale (PObj 12) (PStr ''log'')) (Inr (PObj 14)),
      Called (XLim (PObj 12) (PInt 1) PNone) (Inr (PObj 15)),
      Called (YScale (PObj 12) (PStr ''log'')) (Inr (PObj 16)),
      Called (EventScatter (PObj 5) (PStr ''180215_1029'')) (Inr (PObj 17))]) (fresh 0)"
  by (simp add: workflow_def fresh_def cells wp_rules cooperative_def del: block.simps)

lemma cooperative_run:
  "workflow cooperative (fresh 0) =
     (fst (workflow cooperative (fresh 0)), snd (workflow cooperative (fresh 0)))"
  by simp

lemmas cooperative_result = wpD [OF cooperative_session cooperative_run]

subsection \<open>One run identifier\<close>

lemma run_id_wp:
  "wp (workflow ext) (\<lambda>r s'.
       prefix (run_id_uses (log s'))
         [BindsRunId (PStr ''180215_1029''), GetDfOn (PStr ''180215_1029''),
          EventScatterOn (PStr ''180215_1029'')]
     \<and> (r = Inr () \<longrightarrow>
          run_id_uses (log s') =
            [BindsRunId (PStr ''180215_1029''), GetDfOn (PStr ''180215_1029''),
             EventScatterOn (PStr ''180215_1029'')]
        \<and> vars s' ''run_id'' = Some (PStr ''180215_1029''))
     \<and> (\<exists>st t.
          prefix (plot_sources (log s'))
            [Retrieved st (PStr ''180215_1029'') t, BindsDf t, ManualPlotOf t,
             BuiltinPlotOf st (PStr ''180215_1029'')]
        \<and> (r = Inr () \<longrightarrow> plot_sources (log s') =
            [Retrieved st (PStr ''180215_1029'') t, BindsDf t, ManualPlotOf t,
             BuiltinPlotOf st (PStr ''180215_1029'')]))) (fresh w)"
  by (simp add: workflow_def fresh_def cells wp_rules del: block.simps)

text \<open>
  Claim C10. The workflow uses one run identifier. In every session, the events that
  involve a run identifier are, in this order and each at most once, the binding of
  \<^verbatim>\<open>run_id\<close> to \<^verbatim>\<open>'180215_1029'\<close>, the call of \<^verbatim>\<open>get_df\<close> on that identifier and the call
  of \<^verbatim>\<open>event_scatter\<close> on that identifier; a session may stop early, so what it shows
  is a prefix of these three. A session that runs to the end shows all three, so the
  variable is bound once and not bound again between the two calls, both calls receive
  the same identifier, and the variable still holds it at the end.

  The two plots are over the same run. There are a context \<open>st\<close> and a table \<open>t\<close> such
  that the events that decide what is plotted are, in this order and each at most
  once: \<^verbatim>\<open>get_df\<close> on \<open>st\<close> and \<^verbatim>\<open>'180215_1029'\<close> returning \<open>t\<close>, the binding of \<^verbatim>\<open>df\<close> to \<open>t\<close>,
  the scatter plot with receiver \<open>t\<close>, and \<^verbatim>\<open>event_scatter\<close> on \<open>st\<close> and \<^verbatim>\<open>'180215_1029'\<close>.
  So the manual plot is drawn from the table retrieved for that identifier, \<^verbatim>\<open>df\<close> is not
  bound to anything else, and the built-in plot is asked of the same context for the
  same identifier. A session that runs to the end shows all four.
\<close>

theorem workflow_one_run_id:
  assumes "workflow ext (fresh w) = (r, s')"
  shows "prefix (run_id_uses (log s'))
         [BindsRunId (PStr ''180215_1029''), GetDfOn (PStr ''180215_1029''),
          EventScatterOn (PStr ''180215_1029'')]
     \<and> (r = Inr () \<longrightarrow>
          run_id_uses (log s') =
            [BindsRunId (PStr ''180215_1029''), GetDfOn (PStr ''180215_1029''),
             EventScatterOn (PStr ''180215_1029'')]
        \<and> vars s' ''run_id'' = Some (PStr ''180215_1029''))
     \<and> (\<exists>st t.
          prefix (plot_sources (log s'))
            [Retrieved st (PStr ''180215_1029'') t, BindsDf t, ManualPlotOf t,
             BuiltinPlotOf st (PStr ''180215_1029'')]
        \<and> (r = Inr () \<longrightarrow> plot_sources (log s') =
            [Retrieved st (PStr ''180215_1029'') t, BindsDf t, ManualPlotOf t,
             BuiltinPlotOf st (PStr ''180215_1029'')]))"
  using wpD [OF run_id_wp assms] .

theorem workflow_one_run_id_witness:
  "fst (workflow cooperative (fresh 0)) = Inr ()
   \<and> run_id_uses (log (snd (workflow cooperative (fresh 0)))) =
        [BindsRunId (PStr ''180215_1029''), GetDfOn (PStr ''180215_1029''),
         EventScatterOn (PStr ''180215_1029'')]
   \<and> vars (snd (workflow cooperative (fresh 0))) ''run_id'' = Some (PStr ''180215_1029'')
   \<and> plot_sources (log (snd (workflow cooperative (fresh 0)))) =
        [Retrieved (PObj 5) (PStr ''180215_1029'') (PObj 10), BindsDf (PObj 10),
         ManualPlotOf (PObj 10), BuiltinPlotOf (PObj 5) (PStr ''180215_1029'')]"
  using workflow_one_run_id [OF cooperative_run] cooperative_result
  by simp

subsection \<open>The order of the steps\<close>

lemma raised_atD:
  "raised_at x ev e \<Longrightarrow> \<exists>c v. ev = Called c (Inr v) \<and> x = Called c (Inl e)"
  by (induction x ev e rule: raised_at.induct) auto

text \<open>What \<open>stops_in\<close> computes, said with lists.\<close>

lemma stops_inD:
  "stops_in lg full e \<Longrightarrow>
     \<exists>pre c v post. full = pre @ Called c (Inr v) # post \<and> lg = pre @ [Called c (Inl e)]"
proof (induction lg full e rule: stops_in.induct)
  case (3 x ev full e)
  then obtain c v where "ev = Called c (Inr v)" "x = Called c (Inl e)"
    using raised_atD by fastforce
  then have "ev # full = [] @ Called c (Inr v) # full \<and> [x] = [] @ [Called c (Inl e)]"
    by simp
  then show ?case by blast
next
  case (4 x y lg ev full e)
  from "4.prems" have same: "x = ev" and rest: "stops_in (y # lg) full e"
    by simp_all
  from "4.IH" [OF rest] obtain pre c v post where
    "full = pre @ Called c (Inr v) # post" "y # lg = pre @ [Called c (Inl e)]"
    by blast
  with same have "ev # full = (ev # pre) @ Called c (Inr v) # post
      \<and> x # y # lg = (ev # pre) @ [Called c (Inl e)]"
    by simp
  then show ?case by blast
qed simp_all

lemma order_wp:
  "wp (workflow ext) (\<lambda>r s'.
       prefix (steps (calls (log s')))
         [ContextSelection, Discovery, Discovery, Discovery, Discovery,
          RetrievalVisualization, RetrievalVisualization, RetrievalVisualization,
          RetrievalVisualization, RetrievalVisualization, RetrievalVisualization,
          RetrievalVisualization]
     \<and> (r = Inr () \<longrightarrow>
          (\<exists>i1 i2 m m2 m3 st d1 d2 d3 d4 df p plt f1 f2 f3 f4 f5.
             log s' = complete_log i1 i2 m m2 m3 st d1 d2 d3 d4 df p plt f1 f2 f3 f4 f5))
     \<and> (\<forall>e. r = Inl e \<longrightarrow>
          (\<exists>i1 i2 m m2 m3 st d1 d2 d3 d4 df p plt f1 f2 f3 f4 f5.
             stops_in (log s')
               (complete_log i1 i2 m m2 m3 st d1 d2 d3 d4 df p plt f1 f2 f3 f4 f5) e)))
     (fresh w)"
  by (simp add: workflow_def fresh_def cells wp_rules complete_log_def del: block.simps)

lemma unknown_run_log:
  "wp (workflow unknown_run) (\<lambda>r s'. log s' =
     [Called (System pip_cmd) (Inr (PObj 0)),
      Called (System (pip_cmd @ '' --user'')) (Inr (PObj 1)),
      Called (Import ''straxen'') (Inr (PObj 2)), Bound ''straxen'' (PObj 2),
      Called (Import ''strax'') (Inr (PObj 3)), Bound ''strax'' (PObj 3),
      Called (Import ''pandas'') (Inr (PObj 4)), Bound ''pd'' (PObj 4),
      Called (Xenon1tDali (PObj 2)) (Inr (PObj 5)), Bound ''st'' (PObj 5),
      Called (SearchField (PObj 5) (PStr ''cs1'')) (Inr (PObj 6)),
      Called (DataInfo (PObj 5) (PStr ''corrected_areas'')) (Inr (PObj 7)),
      Called (DataInfo (PObj 5) (PStr ''event_info'')) (Inr (PObj 8)),
      Called (SelectRuns (PObj 5)) (Inr (PObj 9)),
      Bound ''run_id'' (PStr ''180215_1029''),
      Called (GetDf (PObj 5) (PStr ''180215_1029'') (PStr ''event_info''))
        (Inl (Raised ''run not found''))]) (fresh 0)"
  by (simp add: workflow_def fresh_def cells wp_rules unknown_run_def del: block.simps)

lemma unknown_run_run:
  "workflow unknown_run (fresh 0) =
     (fst (workflow unknown_run (fresh 0)), snd (workflow unknown_run (fresh 0)))"
  by simp

text \<open>
  Claim C9, as the spec states it, says that the result of each step feeds the next
  step or a plotting routine. In the cooperative world every call returns an object
  of its own, so a value reaches a call only by being passed to it, and there the
  session's results do not all feed forward. There
  \<^verbatim>\<open>search_field\<close> returns object 6, and no call of the session receives object 6; the
  same holds for the results of both \<^verbatim>\<open>data_info\<close> calls and of \<^verbatim>\<open>select_runs\<close> (objects
  7, 8 and 9): the module passes the results of discovery nowhere. The context
  (object 5) does reach later calls.
\<close>

theorem discovery_results_feed_nothing:
  "\<not> results_feed_forward (log (snd (workflow cooperative (fresh 0))))
   \<and> Called (SearchField (PObj 5) (PStr ''cs1'')) (Inr (PObj 6))
     \<in> set (log (snd (workflow cooperative (fresh 0))))
   \<and> consumers (PObj 6) (log (snd (workflow cooperative (fresh 0)))) = []
   \<and> consumers (PObj 7) (log (snd (workflow cooperative (fresh 0)))) = []
   \<and> consumers (PObj 8) (log (snd (workflow cooperative (fresh 0)))) = []
   \<and> consumers (PObj 9) (log (snd (workflow cooperative (fresh 0)))) = []
   \<and> consumers (PObj 5) (log (snd (workflow cooperative (fresh 0)))) \<noteq> []"
  using cooperative_result
  by (simp add: consumers_def)

text \<open>
  Claim C9, amended. Whatever the collaborators answer, a session is one fixed
  sequence of calls, each made once. A session that runs to the end has exactly the
  log \<open>complete_log\<close> of the values its calls returned: after the two installations and
  the three imports, \<^verbatim>\<open>xenon1t_dali\<close>, whose result is bound to \<^verbatim>\<open>st\<close> and is the receiver of
  every later call on the context; \<^verbatim>\<open>search_field\<close>, \<^verbatim>\<open>data_info\<close> twice and \<^verbatim>\<open>select_runs\<close>,
  whose results are passed to no later call; \<^verbatim>\<open>get_df\<close>, whose result is bound to \<^verbatim>\<open>df\<close>
  and is what \<^verbatim>\<open>print\<close> and the scatter plot receive; the import of pyplot and the three
  axis calls on it; and \<^verbatim>\<open>event_scatter\<close> on the context. Every statement makes one
  call, but for the binding of \<^verbatim>\<open>run_id\<close>, which makes none. A session that ends with an
  exception \<open>e\<close> has the log of such a complete session up to one of its calls, and
  that call, raising \<open>e\<close>, is its last event: the calls before it are the same calls
  with the same receivers and arguments, and nothing is called after it. In both
  cases the calls that belong to a step of the workflow come in the order context
  selection, discovery (four calls), retrieval and visualisation (seven calls), so no
  step is moved, repeated or interleaved.
\<close>

theorem workflow_fixed_order:
  assumes "workflow ext (fresh w) = (r, s')"
  shows "prefix (steps (calls (log s')))
         [ContextSelection, Discovery, Discovery, Discovery, Discovery,
          RetrievalVisualization, RetrievalVisualization, RetrievalVisualization,
          RetrievalVisualization, RetrievalVisualization, RetrievalVisualization,
          RetrievalVisualization]
     \<and> (r = Inr () \<longrightarrow>
          (\<exists>i1 i2 m m2 m3 st d1 d2 d3 d4 df p plt f1 f2 f3 f4 f5.
             log s' = complete_log i1 i2 m m2 m3 st d1 d2 d3 d4 df p plt f1 f2 f3 f4 f5))
     \<and> (\<forall>e. r = Inl e \<longrightarrow>
          (\<exists>i1 i2 m m2 m3 st d1 d2 d3 d4 df p plt f1 f2 f3 f4 f5.
             stops_in (log s')
               (complete_log i1 i2 m m2 m3 st d1 d2 d3 d4 df p plt f1 f2 f3 f4 f5) e))"
  using wpD [OF order_wp assms] .

text \<open>
  The cooperative session runs to the end with the complete log of objects 0 to 17;
  the session in which \<^verbatim>\<open>get_df\<close> raises has that log up to \<^verbatim>\<open>get_df\<close>.
\<close>

theorem workflow_fixed_order_witness:
  "fst (workflow cooperative (fresh 0)) = Inr ()
   \<and> steps (calls (log (snd (workflow cooperative (fresh 0))))) =
        [ContextSelection, Discovery, Discovery, Discovery, Discovery,
         RetrievalVisualization, RetrievalVisualization, RetrievalVisualization,
         RetrievalVisualization, RetrievalVisualization, RetrievalVisualization,
         RetrievalVisualization]
   \<and> length (log (snd (workflow cooperative (fresh 0)))) = 25
   \<and> log (snd (workflow cooperative (fresh 0))) =
        complete_log (PObj 0) (PObj 1) (PObj 2) (PObj 3) (PObj 4) (PObj 5) (PObj 6)
          (PObj 7) (PObj 8) (PObj 9) (PObj 10) (PObj 11) (PObj 12) (PObj 13) (PObj 14)
          (PObj 15) (PObj 16) (PObj 17)
   \<and> stops_in (log (snd (workflow unknown_run (fresh 0))))
        (complete_log (PObj 0) (PObj 1) (PObj 2) (PObj 3) (PObj 4) (PObj 5) (PObj 6)
          (PObj 7) (PObj 8) (PObj 9) (PObj 10) (PObj 11) (PObj 12) (PObj 13) (PObj 14)
          (PObj 15) (PObj 16) (PObj 17)) (Raised ''run not found'')"
  using workflow_fixed_order [OF cooperative_run] cooperative_result
    wpD [OF unknown_run_log unknown_run_run]
  by (simp add: complete_log_def)

subsection \<open>The manual plot\<close>

lemma manual_plot_wp:
  "vars s ''df'' = Some df \<Longrightarrow>
   wp (block (manual_plot ext)) (\<lambda>r s'. r = Inr () \<longrightarrow>
     (\<exists>plt f1 f2 f3 f4. drop (length (log s)) (log s') =
        [Called (Import ''matplotlib.pyplot'') (Inr plt), Bound ''plt'' plt,
         Called (PlotScatter df (PStr ''cs1'') (PStr ''cs2'')) (Inr f1),
         Called (XScale plt (PStr ''log'')) (Inr f2),
         Called (XLim plt (PInt 1) PNone) (Inr f3),
         Called (YScale plt (PStr ''log'')) (Inr f4)])
     \<and> render (calls (drop (length (log s)) (log s'))) =
        \<lparr>plotted = Some (df, PStr ''cs1'', PStr ''cs2''), x_scale = Log, y_scale = Log,
         x_lower = Some 1, x_upper = None\<rparr>) s"
  by (simp add: cells wp_rules render_def blank_def del: block.simps)

text \<open>
  Claim C1. With the result table bound to \<^verbatim>\<open>df\<close>, a manual plotting step that runs
  to its end has done exactly this: imported pyplot, asked the table for a scatter
  plot of column \<^verbatim>\<open>'cs1'\<close> against column \<^verbatim>\<open>'cs2'\<close>, then asked pyplot for a logarithmic
  x-scale, for x-limits \<^verbatim>\<open>(1, None)\<close> and for a logarithmic y-scale. The axes these
  calls describe show the two columns, have both scales logarithmic, the lower limit
  of the x-axis at 1 and no upper limit set.
\<close>

theorem manual_plot_log_log:
  assumes "vars s ''df'' = Some df"
    and "block (manual_plot ext) s = (Inr (), s')"
  shows "(\<exists>plt f1 f2 f3 f4. drop (length (log s)) (log s') =
        [Called (Import ''matplotlib.pyplot'') (Inr plt), Bound ''plt'' plt,
         Called (PlotScatter df (PStr ''cs1'') (PStr ''cs2'')) (Inr f1),
         Called (XScale plt (PStr ''log'')) (Inr f2),
         Called (XLim plt (PInt 1) PNone) (Inr f3),
         Called (YScale plt (PStr ''log'')) (Inr f4)])
     \<and> render (calls (drop (length (log s)) (log s'))) =
        \<lparr>plotted = Some (df, PStr ''cs1'', PStr ''cs2''), x_scale = Log, y_scale = Log,
         x_lower = Some 1, x_upper = None\<rparr>"
  using wpD [OF manual_plot_wp [OF assms(1)] assms(2)] by simp

lemma manual_plot_cooperative:
  "wp (block (manual_plot cooperative)) (\<lambda>r s'. r = Inr ()) table_loaded"
  by (simp add: cells wp_rules cooperative_def table_loaded_def del: block.simps)

theorem manual_plot_log_log_witness:
  "vars table_loaded ''df'' = Some (PObj 10)
   \<and> fst (block (manual_plot cooperative) table_loaded) = Inr ()
   \<and> render (calls (drop (length (log table_loaded))
        (log (snd (block (manual_plot cooperative) table_loaded))))) =
        \<lparr>plotted = Some (PObj 10, PStr ''cs1'', PStr ''cs2''), x_scale = Log, y_scale = Log,
         x_lower = Some 1, x_upper = None\<rparr>"
proof -
  have bound: "vars table_loaded ''df'' = Some (PObj 10)"
    by (simp add: table_loaded_def)
  have ended: "fst (block (manual_plot cooperative) table_loaded) = Inr ()"
    using wpD [OF manual_plot_cooperative, of "fst (block (manual_plot cooperative) table_loaded)"
        "snd (block (manual_plot cooperative) table_loaded)"]
    by simp
  then have run: "block (manual_plot cooperative) table_loaded =
      (Inr (), snd (block (manual_plot cooperative) table_loaded))"
    by (simp add: prod_eq_iff)
  from manual_plot_log_log [OF bound run] have
    "render (calls (drop (length (log table_loaded))
        (log (snd (block (manual_plot cooperative) table_loaded))))) =
        \<lparr>plotted = Some (PObj 10, PStr ''cs1'', PStr ''cs2''), x_scale = Log, y_scale = Log,
         x_lower = Some 1, x_upper = None\<rparr>"
    by (rule conjunct2)
  with bound ended show ?thesis
    by (intro conjI)
qed

subsection \<open>Discovery binds nothing\<close>

text \<open>
  The four discovery statements are expression statements: whatever the collaborators
  answer, the module-level variables are after them what they were before. What the
  calls do inside the collaborators is not the module's to decide.
\<close>

lemma discovery_keeps_variables:
  "wp (block (discovery ext)) (\<lambda>r s'. vars s' = vars s) s"
  by (simp add: cells wp_rules del: block.simps)

end
